theory Spec2Isabelle
  imports Main
begin

section \<open>The service handle bridge of the Wifi mainline supplicant\<close>

text \<open>
  The repository is one JNI entry point, in
  \<^verbatim>\<open>jni/com_android_server_ServiceManagerWrapper.cpp\<close>:
  \<^verbatim>\<open>
  const char* serviceName = env->GetStringUTFChars(serviceNameJni, nullptr);
  return AIBinder_toJavaBinder(env, AServiceManager_waitForService(serviceName));
  \<close>
  Everything it calls belongs to the platform (\<^verbatim>\<open>jni.h\<close>,
  \<^verbatim>\<open>android/binder_manager.h\<close>, \<^verbatim>\<open>android/binder_ibinder_jni.h\<close>), so the
  platform is a parameter of the model and the entry point is the composition of
  platform calls that the source writes.
\<close>

subsection \<open>Values crossing the boundary\<close>

text \<open>
  All four kinds of value are C pointers or JNI references and may be null; \<open>None\<close> is
  the null pointer or null reference. The Java string object, the native service handle
  and the Java object wrapping it are opaque to the bridge, hence type variables. A C string is the
  byte sequence before its terminating NUL.
\<close>

type_synonym 's jstring = "'s option"
type_synonym c_str = "string option"
type_synonym 'b AIBinder_ptr = "'b option"
type_synonym 'j jobject = "'j option"

subsection \<open>How a platform call can end\<close>

text \<open>
  A platform call returns a value together with the next state of the platform
  (which holds whatever the call changes: outstanding character buffers, local
  references, a pending Java exception, the service directory), or it ends the
  computation abnormally with a failure of the platform's own kind \<open>'e\<close>
  (an abort, for instance), or it never returns.
\<close>

datatype ('e, 'a) outcome = Returns 'a | Fails 'e | Blocks

subsection \<open>The platform interface\<close>

text \<open>
  The functions of \<^verbatim>\<open>JNIEnv\<close> and of the NDK that deal with the values above.
  The \<^verbatim>\<open>JNIEnv*\<close> argument that the C functions take is the platform state \<open>'w\<close>.
  \<^verbatim>\<open>GetStringUTFChars\<close> is only ever called with \<^verbatim>\<open>isCopy = nullptr\<close>, so that
  out-parameter is not modelled.
\<close>

record ('s, 'b, 'j, 'e, 'w) platform =
  GetStringUTFChars :: "'s jstring \<Rightarrow> 'w \<Rightarrow> ('e, c_str \<times> 'w) outcome"
  ReleaseStringUTFChars :: "'s jstring \<Rightarrow> c_str \<Rightarrow> 'w \<Rightarrow> ('e, unit \<times> 'w) outcome"
  AServiceManager_waitForService :: "c_str \<Rightarrow> 'w \<Rightarrow> ('e, 'b AIBinder_ptr \<times> 'w) outcome"
  AIBinder_toJavaBinder :: "'b AIBinder_ptr \<Rightarrow> 'w \<Rightarrow> ('e, 'j jobject \<times> 'w) outcome"
  AIBinder_fromJavaBinder :: "'j jobject \<Rightarrow> 'w \<Rightarrow> ('e, 'b AIBinder_ptr \<times> 'w) outcome"

text \<open>The platform calls a native function can make, with their arguments.\<close>

datatype ('s, 'b, 'j) call =
    Call_GetStringUTFChars "'s jstring"
  | Call_ReleaseStringUTFChars "'s jstring" c_str
  | Call_waitForService c_str
  | Call_toJavaBinder "'b AIBinder_ptr"
  | Call_fromJavaBinder "'j jobject"

subsection \<open>Native code as a sequence of platform calls\<close>

text \<open>
  A native computation maps the platform state to the list of platform calls it made,
  in order, and the way it ended. \<open>invoke\<close> is one platform call; \<open>bind_jni\<close> is
  C's sequencing: the continuation runs only when the first part has returned, and an
  abnormal end or a call that never returns ends the whole computation, since the
  source has no handler.
\<close>

type_synonym ('c, 'e, 'a, 'w) jni = "'w \<Rightarrow> 'c list \<times> ('e, 'a \<times> 'w) outcome"

definition invoke :: "'c \<Rightarrow> ('w \<Rightarrow> ('e, 'a \<times> 'w) outcome) \<Rightarrow> ('c, 'e, 'a, 'w) jni" where
  "invoke c f w = ([c], f w)"

definition bind_jni ::
  "('c, 'e, 'a, 'w) jni \<Rightarrow> ('a \<Rightarrow> ('c, 'e, 'b, 'w) jni) \<Rightarrow> ('c, 'e, 'b, 'w) jni" where
  "bind_jni m k w =
     (case m w of
        (cs, Returns (a, w')) \<Rightarrow> (case k a w' of (cs', r) \<Rightarrow> (cs @ cs', r))
      | (cs, Fails e) \<Rightarrow> (cs, Fails e)
      | (cs, Blocks) \<Rightarrow> (cs, Blocks))"

subsection \<open>The entry point\<close>

text \<open>
  \<^verbatim>\<open>Java_com_android_server_wifi_mainline_1supplicant_ServiceManagerWrapper_nativeWaitForService__Ljava_lang_String_2\<close>,
  which its own comment calls \<^verbatim>\<open>nativeWaitForService\<close>. The second parameter
  (\<^verbatim>\<open>jobject /* clazz */\<close>) is unnamed and unused in the source. The argument of
  \<^verbatim>\<open>AIBinder_toJavaBinder\<close> is evaluated before that function is called.
\<close>

definition Java_com_android_server_wifi_mainline_1supplicant_ServiceManagerWrapper_nativeWaitForService__Ljava_lang_String_2 ::
  "('s, 'b, 'j, 'e, 'w) platform \<Rightarrow> 'j jobject \<Rightarrow> 's jstring
     \<Rightarrow> (('s, 'b, 'j) call, 'e, 'j jobject, 'w) jni" where
  "Java_com_android_server_wifi_mainline_1supplicant_ServiceManagerWrapper_nativeWaitForService__Ljava_lang_String_2
       env clazz serviceNameJni =
     bind_jni (invoke (Call_GetStringUTFChars serviceNameJni)
                      (GetStringUTFChars env serviceNameJni))
       (\<lambda>serviceName.
          bind_jni (invoke (Call_waitForService serviceName)
                           (AServiceManager_waitForService env serviceName))
            (\<lambda>ibinder. invoke (Call_toJavaBinder ibinder) (AIBinder_toJavaBinder env ibinder)))"

abbreviation nativeWaitForService ::
  "('s, 'b, 'j, 'e, 'w) platform \<Rightarrow> 'j jobject \<Rightarrow> 's jstring
     \<Rightarrow> (('s, 'b, 'j) call, 'e, 'j jobject, 'w) jni" where
  "nativeWaitForService \<equiv>
     Java_com_android_server_wifi_mainline_1supplicant_ServiceManagerWrapper_nativeWaitForService__Ljava_lang_String_2"

subsection \<open>A small concrete platform\<close>

text \<open>
  The theorems below hold for every platform. To run the entry point on concrete inputs
  they are instantiated with this one: Java strings are ASCII byte strings (their
  modified UTF-8 encoding is the string itself), native service handles are numbers, the
  service directory is an association list from instance names to the handle the lookup
  yields (\<open>None\<close> for a name whose lookup yields no handle; the lookup of a name
  that is not listed never returns), and the state keeps the character buffers handed
  out and not yet released, how many of them the runtime can allocate, and the pending
  Java exception.
\<close>

record demo_world =
  directory :: "(string \<times> nat option) list"
  utf_buffers :: "string list"
  utf_capacity :: nat
  pending_exception :: "string option"

datatype demo_jbinder = BinderProxy nat

definition demo_GetStringUTFChars ::
  "string jstring \<Rightarrow> demo_world \<Rightarrow> (string, c_str \<times> demo_world) outcome" where
  "demo_GetStringUTFChars js w =
     (case js of
        None \<Rightarrow> Fails ''JNI abort: null jstring''
      | Some s \<Rightarrow>
          if length (utf_buffers w) < utf_capacity w
          then Returns (Some s, w\<lparr>utf_buffers := s # utf_buffers w\<rparr>)
          else Returns (None, w\<lparr>pending_exception := Some ''OutOfMemoryError''\<rparr>))"

definition demo_ReleaseStringUTFChars ::
  "string jstring \<Rightarrow> c_str \<Rightarrow> demo_world \<Rightarrow> (string, unit \<times> demo_world) outcome" where
  "demo_ReleaseStringUTFChars js buf w =
     (case buf of
        None \<Rightarrow> Returns ((), w)
      | Some b \<Rightarrow> Returns ((), w\<lparr>utf_buffers := remove1 b (utf_buffers w)\<rparr>))"

definition demo_waitForService ::
  "c_str \<Rightarrow> demo_world \<Rightarrow> (string, nat AIBinder_ptr \<times> demo_world) outcome" where
  "demo_waitForService name w =
     (case name of
        None \<Rightarrow> Fails ''SIGSEGV: null instance name''
      | Some n \<Rightarrow>
          (case map_of (directory w) n of
             None \<Rightarrow> Blocks
           | Some h \<Rightarrow> Returns (h, w)))"

definition demo_toJavaBinder ::
  "nat AIBinder_ptr \<Rightarrow> demo_world \<Rightarrow> (string, demo_jbinder jobject \<times> demo_world) outcome" where
  "demo_toJavaBinder b w = Returns (map_option BinderProxy b, w)"

definition demo_fromJavaBinder ::
  "demo_jbinder jobject \<Rightarrow> demo_world \<Rightarrow> (string, nat AIBinder_ptr \<times> demo_world) outcome" where
  "demo_fromJavaBinder j w = Returns (map_option (\<lambda>x. case x of BinderProxy b \<Rightarrow> b) j, w)"

definition demo_platform :: "(string, nat, demo_jbinder, string, demo_world) platform" where
  "demo_platform =
     \<lparr>GetStringUTFChars = demo_GetStringUTFChars,
      ReleaseStringUTFChars = demo_ReleaseStringUTFChars,
      AServiceManager_waitForService = demo_waitForService,
      AIBinder_toJavaBinder = demo_toJavaBinder,
      AIBinder_fromJavaBinder = demo_fromJavaBinder\<rparr>"

definition demo_boot :: demo_world where
  "demo_boot =
     \<lparr>directory = [(''wifi_mainline_supplicant'', Some 7), (''restricted'', None)],
      utf_buffers = [], utf_capacity = 1, pending_exception = None\<rparr>"

text \<open>
  The directory as the lookup sees it (the names whose lookup yields a handle), and the
  part of the state that the three facilities used by the entry point depend on: the
  directory and the number of character buffers that can still be allocated.
\<close>

definition demo_registered :: "demo_world \<Rightarrow> string \<Rightarrow> nat option" where
  "demo_registered w name = (case map_of (directory w) name of Some (Some b) \<Rightarrow> Some b | _ \<Rightarrow> None)"

definition demo_same_view :: "demo_world \<Rightarrow> demo_world \<Rightarrow> bool" where
  "demo_same_view wa wb \<longleftrightarrow>
     directory wa = directory wb \<and>
     utf_capacity wa - length (utf_buffers wa) = utf_capacity wb - length (utf_buffers wb)"

subsection \<open>Outcomes that agree up to a relation on platform states\<close>

text \<open>
  Two outcomes agree when they end the same way, with equal failures or equal values,
  and leave platform states related by \<open>R\<close>.
\<close>

fun agree :: "('w \<Rightarrow> 'w \<Rightarrow> bool) \<Rightarrow> ('e, 'a \<times> 'w) outcome \<Rightarrow> ('e, 'a \<times> 'w) outcome \<Rightarrow> bool" where
  "agree R (Returns (a, w)) (Returns (a', w')) = (a = a' \<and> R w w')"
| "agree R (Fails e) (Fails e') = (e = e')"
| "agree R Blocks Blocks = True"
| "agree R _ _ = False"

section \<open>Properties\<close>

lemmas demo_defs =
  demo_platform_def demo_GetStringUTFChars_def demo_ReleaseStringUTFChars_def
  demo_waitForService_def demo_toJavaBinder_def demo_fromJavaBinder_def demo_boot_def

lemmas nativeWaitForService_def =
  Java_com_android_server_wifi_mainline_1supplicant_ServiceManagerWrapper_nativeWaitForService__Ljava_lang_String_2_def

lemma nativeWaitForService_unfold:
  "nativeWaitForService env clazz serviceNameJni w =
     (case GetStringUTFChars env serviceNameJni w of
        Returns (serviceName, w1) \<Rightarrow>
          (case AServiceManager_waitForService env serviceName w1 of
             Returns (ibinder, w2) \<Rightarrow>
               ([Call_GetStringUTFChars serviceNameJni, Call_waitForService serviceName,
                 Call_toJavaBinder ibinder],
                AIBinder_toJavaBinder env ibinder w2)
           | Fails e \<Rightarrow>
               ([Call_GetStringUTFChars serviceNameJni, Call_waitForService serviceName], Fails e)
           | Blocks \<Rightarrow>
               ([Call_GetStringUTFChars serviceNameJni, Call_waitForService serviceName], Blocks))
      | Fails e \<Rightarrow> ([Call_GetStringUTFChars serviceNameJni], Fails e)
      | Blocks \<Rightarrow> ([Call_GetStringUTFChars serviceNameJni], Blocks))"
  by (simp add: nativeWaitForService_def bind_jni_def invoke_def split: outcome.splits prod.splits)

text \<open>Facts about the concrete platform used to instantiate the theorems.\<close>

lemma demo_get_agree:
  "demo_same_view wa wb \<Longrightarrow>
     agree demo_same_view (demo_GetStringUTFChars s wa) (demo_GetStringUTFChars s wb)"
proof (cases s)
  case None
  then show ?thesis by (simp add: demo_GetStringUTFChars_def)
next
  case (Some n)
  assume v: "demo_same_view wa wb"
  then have room: "length (utf_buffers wa) < utf_capacity wa \<longleftrightarrow>
                   length (utf_buffers wb) < utf_capacity wb"
    unfolding demo_same_view_def by arith
  show ?thesis
  proof (cases "length (utf_buffers wa) < utf_capacity wa")
    case True
    with room have "length (utf_buffers wb) < utf_capacity wb" by simp
    with True Some v show ?thesis
      unfolding demo_same_view_def demo_GetStringUTFChars_def by simp arith
  next
    case False
    with room have "\<not> length (utf_buffers wb) < utf_capacity wb" by simp
    with False Some v show ?thesis
      unfolding demo_same_view_def demo_GetStringUTFChars_def by simp
  qed
qed

lemma demo_wait_agree:
  "demo_same_view wa wb \<Longrightarrow>
     agree demo_same_view (demo_waitForService n wa) (demo_waitForService n wb)"
  by (cases n) (simp_all add: demo_waitForService_def demo_same_view_def split: option.splits)

lemma demo_conv_agree:
  "demo_same_view wa wb \<Longrightarrow>
     agree demo_same_view (demo_toJavaBinder b wa) (demo_toJavaBinder b wb)"
  by (simp add: demo_toJavaBinder_def)

text \<open>
  \<^bold>\<open>C1.\<close> For every non-null service name string, when the decoding of the string
  returns and the blocking lookup of the decoded name returns, the entry point ends
  exactly as the conversion of the looked-up handle ends, and the platform calls it has
  made are the decoding, one lookup and one conversion, in this order: nothing is
  retried, transformed or wrapped.
\<close>

theorem bridge_returns_conversion_of_lookup_of_decoding:
  assumes "GetStringUTFChars env (Some s) w = Returns (serviceName, w1)"
      and "AServiceManager_waitForService env serviceName w1 = Returns (ibinder, w2)"
  shows "nativeWaitForService env clazz (Some s) w =
           ([Call_GetStringUTFChars (Some s), Call_waitForService serviceName,
             Call_toJavaBinder ibinder],
            AIBinder_toJavaBinder env ibinder w2)"
  using assms by (simp add: nativeWaitForService_unfold)

theorem bridge_returns_conversion_of_lookup_of_decoding_witness:
  "GetStringUTFChars demo_platform (Some ''wifi_mainline_supplicant'') demo_boot =
     Returns (Some ''wifi_mainline_supplicant'',
              demo_boot\<lparr>utf_buffers := [''wifi_mainline_supplicant'']\<rparr>) \<and>
   AServiceManager_waitForService demo_platform (Some ''wifi_mainline_supplicant'')
       (demo_boot\<lparr>utf_buffers := [''wifi_mainline_supplicant'']\<rparr>) =
     Returns (Some 7, demo_boot\<lparr>utf_buffers := [''wifi_mainline_supplicant'']\<rparr>) \<and>
   nativeWaitForService demo_platform None (Some ''wifi_mainline_supplicant'') demo_boot =
     ([Call_GetStringUTFChars (Some ''wifi_mainline_supplicant''),
       Call_waitForService (Some ''wifi_mainline_supplicant''),
       Call_toJavaBinder (Some 7)],
      Returns (Some (BinderProxy 7),
               demo_boot\<lparr>utf_buffers := [''wifi_mainline_supplicant'']\<rparr>))"
proof -
  let ?w1 = "demo_boot\<lparr>utf_buffers := [''wifi_mainline_supplicant'']\<rparr>"
  have decode: "GetStringUTFChars demo_platform (Some ''wifi_mainline_supplicant'') demo_boot =
      Returns (Some ''wifi_mainline_supplicant'', ?w1)"
    by (simp add: demo_defs)
  have lookup: "AServiceManager_waitForService demo_platform (Some ''wifi_mainline_supplicant'') ?w1 =
      Returns (Some 7, ?w1)"
    by (simp add: demo_defs)
  have conv: "AIBinder_toJavaBinder demo_platform (Some 7) ?w1 = Returns (Some (BinderProxy 7), ?w1)"
    by (simp add: demo_defs)
  from bridge_returns_conversion_of_lookup_of_decoding [OF decode lookup, of None] conv decode lookup show ?thesis by simp
qed

text \<open>
  \<^bold>\<open>C2.\<close> When the lookup yields no handle (a null pointer), and the platform's
  conversion maps the null pointer to the null reference as its contract says, the entry
  point returns the null reference: it ends by returning, not by failing, it has made no
  call besides the decoding, the lookup and the conversion, and the state it leaves is
  the one the conversion left, so no error of its own is raised.
\<close>

theorem null_handle_returns_null_reference:
  assumes decode: "GetStringUTFChars env serviceNameJni w = Returns (serviceName, w1)"
      and lookup: "AServiceManager_waitForService env serviceName w1 = Returns (None, w2)"
      and null_to_null: "\<forall>w. \<exists>w'. AIBinder_toJavaBinder env None w = Returns (None, w')"
  shows "\<exists>w3. nativeWaitForService env clazz serviceNameJni w =
                 ([Call_GetStringUTFChars serviceNameJni, Call_waitForService serviceName,
                   Call_toJavaBinder None],
                  Returns (None, w3)) \<and>
              AIBinder_toJavaBinder env None w2 = Returns (None, w3)"
proof -
  from null_to_null obtain w3 where conv: "AIBinder_toJavaBinder env None w2 = Returns (None, w3)"
    by blast
  with decode lookup show ?thesis
    by (simp add: nativeWaitForService_unfold)
qed

theorem null_handle_returns_null_reference_witness:
  "nativeWaitForService demo_platform None (Some ''restricted'') demo_boot =
     ([Call_GetStringUTFChars (Some ''restricted''), Call_waitForService (Some ''restricted''),
       Call_toJavaBinder None],
      Returns (None, demo_boot\<lparr>utf_buffers := [''restricted'']\<rparr>))"
proof -
  let ?w1 = "demo_boot\<lparr>utf_buffers := [''restricted'']\<rparr>"
  have decode: "GetStringUTFChars demo_platform (Some ''restricted'') demo_boot =
      Returns (Some ''restricted'', ?w1)"
    by (simp add: demo_defs)
  have lookup: "AServiceManager_waitForService demo_platform (Some ''restricted'') ?w1 =
      Returns (None, ?w1)"
    by (simp add: demo_defs)
  have null_to_null: "\<forall>w. \<exists>w'. AIBinder_toJavaBinder demo_platform None w = Returns (None, w')"
    by (simp add: demo_defs)
  from null_handle_returns_null_reference [OF decode lookup null_to_null, of None] show ?thesis
    by (simp add: demo_defs)
qed

text \<open>The entry point never calls \<^verbatim>\<open>ReleaseStringUTFChars\<close>, on any platform.\<close>

lemma never_releases:
  "Call_ReleaseStringUTFChars js buf \<notin> set (fst (nativeWaitForService env clazz serviceNameJni w))"
  by (simp add: nativeWaitForService_unfold split: outcome.splits prod.splits)

text \<open>
  \<^bold>\<open>C3.\<close> The character buffer obtained with \<^verbatim>\<open>GetStringUTFChars\<close> is not given
  back: on the concrete platform, a call for \<^verbatim>\<open>wifi_mainline_supplicant\<close> makes the
  three calls and returns with the buffer still outstanding, although no buffer was
  outstanding before the call; \<^verbatim>\<open>ReleaseStringUTFChars\<close>, had it been called on
  the state the entry point leaves, would have restored the state before the call.
\<close>

theorem utf_buffer_not_released:
  "nativeWaitForService demo_platform None (Some ''wifi_mainline_supplicant'') demo_boot =
     ([Call_GetStringUTFChars (Some ''wifi_mainline_supplicant''),
       Call_waitForService (Some ''wifi_mainline_supplicant''),
       Call_toJavaBinder (Some 7)],
      Returns (Some (BinderProxy 7),
               demo_boot\<lparr>utf_buffers := [''wifi_mainline_supplicant'']\<rparr>)) \<and>
   utf_buffers demo_boot = [] \<and>
   ReleaseStringUTFChars demo_platform (Some ''wifi_mainline_supplicant'')
       (Some ''wifi_mainline_supplicant'')
       (demo_boot\<lparr>utf_buffers := [''wifi_mainline_supplicant'']\<rparr>) =
     Returns ((), demo_boot)"
  by (simp add: nativeWaitForService_unfold demo_defs)

text \<open>
  \<^bold>\<open>C4.\<close> What the caller observes is exactly what the platform facilities
  produced, in every case. If the decoding fails with \<open>e\<close>, the entry point fails
  with \<open>e\<close> after that one call. If the decoding returns and the lookup fails with
  \<open>e\<close>, the entry point fails with \<open>e\<close> after those two calls. If the decoding and
  the lookup return, the entry point ends exactly as the conversion of the looked-up
  handle ends in the state the lookup left: with the conversion's value and the
  conversion's state (so an error that a facility has recorded in the platform state,
  such as a pending Java exception, is neither cleared nor replaced), with the
  conversion's failure, or by never returning. If the decoding or the lookup never
  returns, neither does the entry point, and no later call is made. Conversely the
  entry point fails with \<open>e\<close> only when one of the three facilities has failed with
  \<open>e\<close>, so it has no error kind of its own; and the calls made are an initial part of
  one decoding, one lookup, one conversion, so nothing is retried and nothing else
  (a handler, a log) is called.
\<close>

theorem platform_failures_propagate_unmodified:
  "(GetStringUTFChars env serviceNameJni w = Fails e \<longrightarrow>
      nativeWaitForService env clazz serviceNameJni w =
        ([Call_GetStringUTFChars serviceNameJni], Fails e)) \<and>
   (GetStringUTFChars env serviceNameJni w = Returns (serviceName, w1) \<longrightarrow>
    AServiceManager_waitForService env serviceName w1 = Fails e \<longrightarrow>
      nativeWaitForService env clazz serviceNameJni w =
        ([Call_GetStringUTFChars serviceNameJni, Call_waitForService serviceName], Fails e)) \<and>
   (GetStringUTFChars env serviceNameJni w = Returns (serviceName, w1) \<longrightarrow>
    AServiceManager_waitForService env serviceName w1 = Returns (ibinder, w2) \<longrightarrow>
      nativeWaitForService env clazz serviceNameJni w =
        ([Call_GetStringUTFChars serviceNameJni, Call_waitForService serviceName,
          Call_toJavaBinder ibinder],
         AIBinder_toJavaBinder env ibinder w2)) \<and>
   (GetStringUTFChars env serviceNameJni w = Blocks \<longrightarrow>
      nativeWaitForService env clazz serviceNameJni w =
        ([Call_GetStringUTFChars serviceNameJni], Blocks)) \<and>
   (GetStringUTFChars env serviceNameJni w = Returns (serviceName, w1) \<longrightarrow>
    AServiceManager_waitForService env serviceName w1 = Blocks \<longrightarrow>
      nativeWaitForService env clazz serviceNameJni w =
        ([Call_GetStringUTFChars serviceNameJni, Call_waitForService serviceName], Blocks)) \<and>
   (snd (nativeWaitForService env clazz serviceNameJni w) = Fails e \<longleftrightarrow>
     GetStringUTFChars env serviceNameJni w = Fails e \<or>
     (\<exists>serviceName w1.
        GetStringUTFChars env serviceNameJni w = Returns (serviceName, w1) \<and>
        (AServiceManager_waitForService env serviceName w1 = Fails e \<or>
         (\<exists>ibinder w2.
            AServiceManager_waitForService env serviceName w1 = Returns (ibinder, w2) \<and>
            AIBinder_toJavaBinder env ibinder w2 = Fails e)))) \<and>
   (\<exists>serviceName ibinder cs.
      fst (nativeWaitForService env clazz serviceNameJni w) @ cs =
        [Call_GetStringUTFChars serviceNameJni, Call_waitForService serviceName,
         Call_toJavaBinder ibinder])"
proof (intro conjI impI)
  assume "GetStringUTFChars env serviceNameJni w = Fails e"
  then show "nativeWaitForService env clazz serviceNameJni w =
      ([Call_GetStringUTFChars serviceNameJni], Fails e)"
    by (simp add: nativeWaitForService_unfold)
next
  assume "GetStringUTFChars env serviceNameJni w = Returns (serviceName, w1)"
     and "AServiceManager_waitForService env serviceName w1 = Fails e"
  then show "nativeWaitForService env clazz serviceNameJni w =
      ([Call_GetStringUTFChars serviceNameJni, Call_waitForService serviceName], Fails e)"
    by (simp add: nativeWaitForService_unfold)
next
  assume "GetStringUTFChars env serviceNameJni w = Returns (serviceName, w1)"
     and "AServiceManager_waitForService env serviceName w1 = Returns (ibinder, w2)"
  then show "nativeWaitForService env clazz serviceNameJni w =
      ([Call_GetStringUTFChars serviceNameJni, Call_waitForService serviceName,
        Call_toJavaBinder ibinder],
       AIBinder_toJavaBinder env ibinder w2)"
    by (simp add: nativeWaitForService_unfold)
next
  assume "GetStringUTFChars env serviceNameJni w = Blocks"
  then show "nativeWaitForService env clazz serviceNameJni w =
      ([Call_GetStringUTFChars serviceNameJni], Blocks)"
    by (simp add: nativeWaitForService_unfold)
next
  assume "GetStringUTFChars env serviceNameJni w = Returns (serviceName, w1)"
     and "AServiceManager_waitForService env serviceName w1 = Blocks"
  then show "nativeWaitForService env clazz serviceNameJni w =
      ([Call_GetStringUTFChars serviceNameJni, Call_waitForService serviceName], Blocks)"
    by (simp add: nativeWaitForService_unfold)
next
  show "snd (nativeWaitForService env clazz serviceNameJni w) = Fails e \<longleftrightarrow>
     GetStringUTFChars env serviceNameJni w = Fails e \<or>
     (\<exists>serviceName w1.
        GetStringUTFChars env serviceNameJni w = Returns (serviceName, w1) \<and>
        (AServiceManager_waitForService env serviceName w1 = Fails e \<or>
         (\<exists>ibinder w2.
            AServiceManager_waitForService env serviceName w1 = Returns (ibinder, w2) \<and>
            AIBinder_toJavaBinder env ibinder w2 = Fails e)))"
    by (auto simp add: nativeWaitForService_unfold split: outcome.splits prod.splits)
next
  show "\<exists>serviceName ibinder cs.
      fst (nativeWaitForService env clazz serviceNameJni w) @ cs =
        [Call_GetStringUTFChars serviceNameJni, Call_waitForService serviceName,
         Call_toJavaBinder ibinder]"
    by (auto simp add: nativeWaitForService_unfold split: outcome.splits prod.splits)
qed

theorem platform_failures_propagate_unmodified_witness:
  "nativeWaitForService demo_platform None None demo_boot =
     ([Call_GetStringUTFChars None], Fails ''JNI abort: null jstring'') \<and>
   nativeWaitForService demo_platform None (Some ''wifi_mainline_supplicant'')
       (demo_boot\<lparr>utf_capacity := 0\<rparr>) =
     ([Call_GetStringUTFChars (Some ''wifi_mainline_supplicant''), Call_waitForService None],
      Fails ''SIGSEGV: null instance name'') \<and>
   nativeWaitForService demo_platform None (Some ''wifi_mainline_supplicant'')
       (demo_boot\<lparr>pending_exception := Some ''IllegalStateException''\<rparr>) =
     ([Call_GetStringUTFChars (Some ''wifi_mainline_supplicant''),
       Call_waitForService (Some ''wifi_mainline_supplicant''),
       Call_toJavaBinder (Some 7)],
      Returns (Some (BinderProxy 7),
               demo_boot\<lparr>utf_buffers := [''wifi_mainline_supplicant''],
                          pending_exception := Some ''IllegalStateException''\<rparr>)) \<and>
   nativeWaitForService
       (demo_platform\<lparr>AIBinder_toJavaBinder := \<lambda>b w. Fails ''no local reference''\<rparr>)
       None (Some ''wifi_mainline_supplicant'') demo_boot =
     ([Call_GetStringUTFChars (Some ''wifi_mainline_supplicant''),
       Call_waitForService (Some ''wifi_mainline_supplicant''),
       Call_toJavaBinder (Some 7)],
      Fails ''no local reference'') \<and>
   nativeWaitForService (demo_platform\<lparr>GetStringUTFChars := \<lambda>s w. Blocks\<rparr>)
       None (Some ''wifi_mainline_supplicant'') demo_boot =
     ([Call_GetStringUTFChars (Some ''wifi_mainline_supplicant'')], Blocks) \<and>
   nativeWaitForService demo_platform None (Some ''nfc'') demo_boot =
     ([Call_GetStringUTFChars (Some ''nfc''), Call_waitForService (Some ''nfc'')], Blocks)"
proof -
  let ?n = "''wifi_mainline_supplicant''"
  let ?w0 = "demo_boot\<lparr>utf_capacity := 0\<rparr>"
  let ?w0' = "demo_boot\<lparr>utf_capacity := 0, pending_exception := Some ''OutOfMemoryError''\<rparr>"
  let ?wp = "demo_boot\<lparr>pending_exception := Some ''IllegalStateException''\<rparr>"
  let ?wp1 = "demo_boot\<lparr>utf_buffers := [?n],
                          pending_exception := Some ''IllegalStateException''\<rparr>"
  let ?w1 = "demo_boot\<lparr>utf_buffers := [?n]\<rparr>"
  let ?wn = "demo_boot\<lparr>utf_buffers := [''nfc'']\<rparr>"
  let ?failing = "demo_platform\<lparr>AIBinder_toJavaBinder := \<lambda>b w. Fails ''no local reference''\<rparr>"
  let ?stuck = "demo_platform\<lparr>GetStringUTFChars := \<lambda>s w. Blocks\<rparr>"
  have decode_fails:
    "GetStringUTFChars demo_platform None demo_boot = Fails ''JNI abort: null jstring''"
    by (simp add: demo_defs)
  have no_buffer: "GetStringUTFChars demo_platform (Some ?n) ?w0 = Returns (None, ?w0')"
    by (simp add: demo_defs)
  have lookup_fails: "AServiceManager_waitForService demo_platform None ?w0' =
      Fails ''SIGSEGV: null instance name''"
    by (simp add: demo_defs)
  have decode_p: "GetStringUTFChars demo_platform (Some ?n) ?wp = Returns (Some ?n, ?wp1)"
    by (simp add: demo_defs)
  have lookup_p: "AServiceManager_waitForService demo_platform (Some ?n) ?wp1 =
      Returns (Some 7, ?wp1)"
    by (simp add: demo_defs)
  have conv_p: "AIBinder_toJavaBinder demo_platform (Some 7) ?wp1 =
      Returns (Some (BinderProxy 7), ?wp1)"
    by (simp add: demo_defs)
  have decode_f: "GetStringUTFChars ?failing (Some ?n) demo_boot = Returns (Some ?n, ?w1)"
    by (simp add: demo_defs)
  have lookup_f: "AServiceManager_waitForService ?failing (Some ?n) ?w1 = Returns (Some 7, ?w1)"
    by (simp add: demo_defs)
  have conv_f: "AIBinder_toJavaBinder ?failing (Some 7) ?w1 = Fails ''no local reference''"
    by simp
  have decode_blocks: "GetStringUTFChars ?stuck (Some ?n) demo_boot = Blocks"
    by simp
  have decode_n: "GetStringUTFChars demo_platform (Some ''nfc'') demo_boot =
      Returns (Some ''nfc'', ?wn)"
    by (simp add: demo_defs)
  have lookup_blocks: "AServiceManager_waitForService demo_platform (Some ''nfc'') ?wn = Blocks"
    by (simp add: demo_defs)
  note inst = platform_failures_propagate_unmodified [where clazz = None]
  from inst [where env = demo_platform and serviceNameJni = None and w = demo_boot
               and e = "''JNI abort: null jstring''"]
    decode_fails
  have a: "nativeWaitForService demo_platform None None demo_boot =
      ([Call_GetStringUTFChars None], Fails ''JNI abort: null jstring'')"
    by blast
  from inst [where env = demo_platform and serviceNameJni = "Some ?n" and w = ?w0
               and serviceName = None and ?w1.0 = ?w0'
               and e = "''SIGSEGV: null instance name''"]
    no_buffer lookup_fails
  have b: "nativeWaitForService demo_platform None (Some ?n) ?w0 =
      ([Call_GetStringUTFChars (Some ?n), Call_waitForService None],
       Fails ''SIGSEGV: null instance name'')"
    by blast
  from inst [where env = demo_platform and serviceNameJni = "Some ?n" and w = ?wp
               and serviceName = "Some ?n" and ?w1.0 = ?wp1 and ibinder = "Some 7"
               and ?w2.0 = ?wp1]
    decode_p lookup_p
  have "nativeWaitForService demo_platform None (Some ?n) ?wp =
      ([Call_GetStringUTFChars (Some ?n), Call_waitForService (Some ?n),
        Call_toJavaBinder (Some 7)],
       AIBinder_toJavaBinder demo_platform (Some 7) ?wp1)"
    by blast
  with conv_p have c: "nativeWaitForService demo_platform None (Some ?n) ?wp =
      ([Call_GetStringUTFChars (Some ?n), Call_waitForService (Some ?n),
        Call_toJavaBinder (Some 7)],
       Returns (Some (BinderProxy 7), ?wp1))"
    by simp
  from inst [where env = ?failing and serviceNameJni = "Some ?n" and w = demo_boot
               and serviceName = "Some ?n" and ?w1.0 = ?w1 and ibinder = "Some 7"
               and ?w2.0 = ?w1]
    decode_f lookup_f
  have "nativeWaitForService ?failing None (Some ?n) demo_boot =
      ([Call_GetStringUTFChars (Some ?n), Call_waitForService (Some ?n),
        Call_toJavaBinder (Some 7)],
       AIBinder_toJavaBinder ?failing (Some 7) ?w1)"
    by blast
  with conv_f have d: "nativeWaitForService ?failing None (Some ?n) demo_boot =
      ([Call_GetStringUTFChars (Some ?n), Call_waitForService (Some ?n),
        Call_toJavaBinder (Some 7)],
       Fails ''no local reference'')"
    by simp
  from inst [where env = ?stuck and serviceNameJni = "Some ?n" and w = demo_boot]
    decode_blocks
  have e: "nativeWaitForService ?stuck None (Some ?n) demo_boot =
      ([Call_GetStringUTFChars (Some ?n)], Blocks)"
    by blast
  from inst [where env = demo_platform and serviceNameJni = "Some ''nfc''" and w = demo_boot
               and serviceName = "Some ''nfc''" and ?w1.0 = ?wn]
    decode_n lookup_blocks
  have f: "nativeWaitForService demo_platform None (Some ''nfc'') demo_boot =
      ([Call_GetStringUTFChars (Some ''nfc''), Call_waitForService (Some ''nfc'')], Blocks)"
    by blast
  from a b c d e f show ?thesis by (intro conjI)
qed

text \<open>
  \<^bold>\<open>C5.\<close> When the platform's wait never returns, the entry point never returns
  and has made no call after the wait. When the entry point returns, the wait has
  returned and the value and state are those the conversion of its result produced.
  And the entry point never returns exactly when one of the platform calls it makes
  never returns: no timeout or cancellation is added.
\<close>

theorem bridge_returns_only_after_wait:
  "(GetStringUTFChars env serviceNameJni w = Returns (serviceName, w1) \<longrightarrow>
    AServiceManager_waitForService env serviceName w1 = Blocks \<longrightarrow>
      nativeWaitForService env clazz serviceNameJni w =
        ([Call_GetStringUTFChars serviceNameJni, Call_waitForService serviceName], Blocks)) \<and>
   (snd (nativeWaitForService env clazz serviceNameJni w) = Returns (j, w') \<longrightarrow>
      (\<exists>name wa ibinder wb.
         GetStringUTFChars env serviceNameJni w = Returns (name, wa) \<and>
         AServiceManager_waitForService env name wa = Returns (ibinder, wb) \<and>
         AIBinder_toJavaBinder env ibinder wb = Returns (j, w'))) \<and>
   (snd (nativeWaitForService env clazz serviceNameJni w) = Blocks \<longleftrightarrow>
      GetStringUTFChars env serviceNameJni w = Blocks \<or>
      (\<exists>name wa.
         GetStringUTFChars env serviceNameJni w = Returns (name, wa) \<and>
         (AServiceManager_waitForService env name wa = Blocks \<or>
          (\<exists>ibinder wb.
             AServiceManager_waitForService env name wa = Returns (ibinder, wb) \<and>
             AIBinder_toJavaBinder env ibinder wb = Blocks))))"
proof (intro conjI impI)
  assume "GetStringUTFChars env serviceNameJni w = Returns (serviceName, w1)"
     and "AServiceManager_waitForService env serviceName w1 = Blocks"
  then show "nativeWaitForService env clazz serviceNameJni w =
      ([Call_GetStringUTFChars serviceNameJni, Call_waitForService serviceName], Blocks)"
    by (simp add: nativeWaitForService_unfold)
next
  assume "snd (nativeWaitForService env clazz serviceNameJni w) = Returns (j, w')"
  then show "\<exists>name wa ibinder wb.
      GetStringUTFChars env serviceNameJni w = Returns (name, wa) \<and>
      AServiceManager_waitForService env name wa = Returns (ibinder, wb) \<and>
      AIBinder_toJavaBinder env ibinder wb = Returns (j, w')"
    by (auto simp add: nativeWaitForService_unfold split: outcome.splits prod.splits)
next
  show "snd (nativeWaitForService env clazz serviceNameJni w) = Blocks \<longleftrightarrow>
      GetStringUTFChars env serviceNameJni w = Blocks \<or>
      (\<exists>name wa.
         GetStringUTFChars env serviceNameJni w = Returns (name, wa) \<and>
         (AServiceManager_waitForService env name wa = Blocks \<or>
          (\<exists>ibinder wb.
             AServiceManager_waitForService env name wa = Returns (ibinder, wb) \<and>
             AIBinder_toJavaBinder env ibinder wb = Blocks)))"
    by (auto simp add: nativeWaitForService_unfold split: outcome.splits prod.splits)
qed

theorem bridge_returns_only_after_wait_witness:
  "nativeWaitForService demo_platform None (Some ''nfc'') demo_boot =
     ([Call_GetStringUTFChars (Some ''nfc''), Call_waitForService (Some ''nfc'')], Blocks) \<and>
   (\<exists>name wa ibinder wb.
      GetStringUTFChars demo_platform (Some ''wifi_mainline_supplicant'') demo_boot =
        Returns (name, wa) \<and>
      AServiceManager_waitForService demo_platform name wa = Returns (ibinder, wb) \<and>
      AIBinder_toJavaBinder demo_platform ibinder wb =
        Returns (Some (BinderProxy 7),
                 demo_boot\<lparr>utf_buffers := [''wifi_mainline_supplicant'']\<rparr>))"
proof -
  let ?w1 = "demo_boot\<lparr>utf_buffers := [''nfc'']\<rparr>"
  have decode: "GetStringUTFChars demo_platform (Some ''nfc'') demo_boot = Returns (Some ''nfc'', ?w1)"
    by (simp add: demo_defs)
  have blocked: "AServiceManager_waitForService demo_platform (Some ''nfc'') ?w1 = Blocks"
    by (simp add: demo_defs)
  have returned:
    "snd (nativeWaitForService demo_platform None (Some ''wifi_mainline_supplicant'') demo_boot) =
       Returns (Some (BinderProxy 7), demo_boot\<lparr>utf_buffers := [''wifi_mainline_supplicant'']\<rparr>)"
    by (simp add: nativeWaitForService_unfold demo_defs)
  from bridge_returns_only_after_wait [where env = demo_platform and serviceNameJni = "Some ''nfc''" and w = demo_boot
             and serviceName = "Some ''nfc''" and ?w1.0 = ?w1 and clazz = None]
    decode blocked
  have first: "nativeWaitForService demo_platform None (Some ''nfc'') demo_boot =
     ([Call_GetStringUTFChars (Some ''nfc''), Call_waitForService (Some ''nfc'')], Blocks)"
    by blast
  from bridge_returns_only_after_wait [where env = demo_platform and serviceNameJni = "Some ''wifi_mainline_supplicant''"
             and w = demo_boot and clazz = None and j = "Some (BinderProxy 7)"
             and w' = "demo_boot\<lparr>utf_buffers := [''wifi_mainline_supplicant'']\<rparr>"]
    returned
  have second: "\<exists>name wa ibinder wb.
      GetStringUTFChars demo_platform (Some ''wifi_mainline_supplicant'') demo_boot =
        Returns (name, wa) \<and>
      AServiceManager_waitForService demo_platform name wa = Returns (ibinder, wb) \<and>
      AIBinder_toJavaBinder demo_platform ibinder wb =
        Returns (Some (BinderProxy 7),
                 demo_boot\<lparr>utf_buffers := [''wifi_mainline_supplicant'']\<rparr>)"
    by blast
  from first second show ?thesis by blast
qed

text \<open>
  \<^bold>\<open>C6.\<close> Relative to the platform's contract: let \<open>directory_of\<close> be the
  service directory held in the platform state, \<open>utf8\<close> the decoding of Java
  strings, and \<open>identifies\<close> the relation between a Java handle and the native
  service it stands for. If decoding \<open>s\<close> succeeds and leaves the directory as it
  is, the lookup of a registered name returns the registered service, and the
  conversion of a service returns a handle that identifies it, then for a name
  registered at call time the entry point returns a handle identifying that service.
\<close>

theorem registered_service_is_returned:
  fixes directory_of :: "'w \<Rightarrow> string \<Rightarrow> 'b option"
    and utf8 :: "'s \<Rightarrow> string"
    and identifies :: "'j \<Rightarrow> 'b \<Rightarrow> bool"
  assumes decode: "\<exists>w1. GetStringUTFChars env (Some s) w = Returns (Some (utf8 s), w1) \<and>
                        directory_of w1 = directory_of w"
      and lookup: "\<forall>name wa b. directory_of wa name = Some b \<longrightarrow>
                     (\<exists>wb. AServiceManager_waitForService env (Some name) wa = Returns (Some b, wb))"
      and convert: "\<forall>b wa. \<exists>j wb. AIBinder_toJavaBinder env (Some b) wa = Returns (Some j, wb) \<and>
                        identifies j b"
      and registered: "directory_of w (utf8 s) = Some b"
  shows "\<exists>j w'. snd (nativeWaitForService env clazz (Some s) w) = Returns (Some j, w') \<and>
                 identifies j b"
proof -
  from decode obtain w1 where
    d: "GetStringUTFChars env (Some s) w = Returns (Some (utf8 s), w1)" and
    same: "directory_of w1 = directory_of w"
    by blast
  from registered same have "directory_of w1 (utf8 s) = Some b" by simp
  with lookup obtain w2 where
    l: "AServiceManager_waitForService env (Some (utf8 s)) w1 = Returns (Some b, w2)"
    by blast
  from convert obtain j w3 where
    c: "AIBinder_toJavaBinder env (Some b) w2 = Returns (Some j, w3)" and i: "identifies j b"
    by blast
  from d l c i show ?thesis
    by (auto simp add: nativeWaitForService_unfold)
qed

theorem registered_service_is_returned_witness:
  "demo_registered demo_boot ''wifi_mainline_supplicant'' = Some 7 \<and>
   (\<exists>j w'. snd (nativeWaitForService demo_platform None (Some ''wifi_mainline_supplicant'')
                  demo_boot) = Returns (Some j, w') \<and> j = BinderProxy 7)"
proof -
  have decode: "\<exists>w1. GetStringUTFChars demo_platform (Some ''wifi_mainline_supplicant'') demo_boot =
                       Returns (Some ((\<lambda>s. s) ''wifi_mainline_supplicant''), w1) \<and>
                     demo_registered w1 = demo_registered demo_boot"
    by (simp add: demo_defs demo_registered_def fun_eq_iff)
  have lookup: "\<forall>name wa b. demo_registered wa name = Some b \<longrightarrow>
      (\<exists>wb. AServiceManager_waitForService demo_platform (Some name) wa = Returns (Some b, wb))"
    by (auto simp add: demo_defs demo_registered_def split: option.splits)
  have convert: "\<forall>b wa. \<exists>j wb. AIBinder_toJavaBinder demo_platform (Some b) wa =
      Returns (Some j, wb) \<and> (\<lambda>j b. j = BinderProxy b) j b"
    by (simp add: demo_defs)
  have registered: "demo_registered demo_boot ((\<lambda>s. s) ''wifi_mainline_supplicant'') = Some 7"
    by (simp add: demo_defs demo_registered_def)
  from registered_service_is_returned [of demo_platform "''wifi_mainline_supplicant''" demo_boot "\<lambda>s. s" demo_registered
             "\<lambda>j b. j = BinderProxy b" 7 None, OF decode lookup convert registered] registered
  show ?thesis by simp
qed

text \<open>
  \<^bold>\<open>C7.\<close> Relative to the platform's contract that
  \<^verbatim>\<open>AIBinder_fromJavaBinder\<close> inverts \<^verbatim>\<open>AIBinder_toJavaBinder\<close>: when the entry
  point returns a non-null handle, converting that handle back, in the state the entry
  point left, returns the native reference that the lookup produced.
\<close>

theorem returned_handle_round_trips:
  assumes roundtrip:
      "\<forall>b wa j wb. AIBinder_toJavaBinder env b wa = Returns (j, wb) \<longrightarrow>
         (\<exists>wc. AIBinder_fromJavaBinder env j wb = Returns (b, wc))"
      and returned: "snd (nativeWaitForService env clazz serviceNameJni w) = Returns (Some j, w')"
  shows "\<exists>serviceName w1 ibinder w2 w''.
           GetStringUTFChars env serviceNameJni w = Returns (serviceName, w1) \<and>
           AServiceManager_waitForService env serviceName w1 = Returns (ibinder, w2) \<and>
           AIBinder_fromJavaBinder env (Some j) w' = Returns (ibinder, w'')"
proof -
  from returned obtain serviceName w1 ibinder w2 where
    d: "GetStringUTFChars env serviceNameJni w = Returns (serviceName, w1)" and
    l: "AServiceManager_waitForService env serviceName w1 = Returns (ibinder, w2)" and
    c: "AIBinder_toJavaBinder env ibinder w2 = Returns (Some j, w')"
    by (auto simp add: nativeWaitForService_unfold split: outcome.splits prod.splits)
  from roundtrip c obtain w'' where "AIBinder_fromJavaBinder env (Some j) w' = Returns (ibinder, w'')"
    by blast
  with d l show ?thesis by blast
qed

theorem returned_handle_round_trips_witness:
  "snd (nativeWaitForService demo_platform None (Some ''wifi_mainline_supplicant'') demo_boot) =
     Returns (Some (BinderProxy 7), demo_boot\<lparr>utf_buffers := [''wifi_mainline_supplicant'']\<rparr>) \<and>
   (\<exists>serviceName w1 ibinder w2 w''.
      GetStringUTFChars demo_platform (Some ''wifi_mainline_supplicant'') demo_boot =
        Returns (serviceName, w1) \<and>
      AServiceManager_waitForService demo_platform serviceName w1 = Returns (ibinder, w2) \<and>
      AIBinder_fromJavaBinder demo_platform (Some (BinderProxy 7))
          (demo_boot\<lparr>utf_buffers := [''wifi_mainline_supplicant'']\<rparr>) =
        Returns (ibinder, w''))"
proof -
  have roundtrip:
    "\<forall>b wa j wb. AIBinder_toJavaBinder demo_platform b wa = Returns (j, wb) \<longrightarrow>
       (\<exists>wc. AIBinder_fromJavaBinder demo_platform j wb = Returns (b, wc))"
    by (auto simp add: demo_defs option.map_comp comp_def option.map_ident)
  have returned:
    "snd (nativeWaitForService demo_platform None (Some ''wifi_mainline_supplicant'') demo_boot) =
       Returns (Some (BinderProxy 7), demo_boot\<lparr>utf_buffers := [''wifi_mainline_supplicant'']\<rparr>)"
    by (simp add: nativeWaitForService_unfold demo_defs)
  from returned_handle_round_trips [OF roundtrip returned] returned show ?thesis by blast
qed

text \<open>
  \<^bold>\<open>C8.\<close> Whatever string reference the caller passes and whatever the decoding
  returns for it, the lookup is the next call and its argument is the decoded buffer
  itself; the entry point ends as the lookup followed by the conversion ends, so the
  entry point neither checks, rejects nor rewrites the name.
\<close>

theorem decoded_name_forwarded_unvalidated:
  assumes "GetStringUTFChars env serviceNameJni w = Returns (serviceName, w1)"
  shows "(\<exists>cs. fst (nativeWaitForService env clazz serviceNameJni w) =
               Call_GetStringUTFChars serviceNameJni # Call_waitForService serviceName # cs) \<and>
         snd (nativeWaitForService env clazz serviceNameJni w) =
           (case AServiceManager_waitForService env serviceName w1 of
              Returns (ibinder, w2) \<Rightarrow> AIBinder_toJavaBinder env ibinder w2
            | Fails e \<Rightarrow> Fails e
            | Blocks \<Rightarrow> Blocks)"
  using assms by (simp add: nativeWaitForService_unfold split: outcome.splits prod.splits)

theorem decoded_name_forwarded_unvalidated_witness:
  "GetStringUTFChars demo_platform (Some '''') (demo_boot\<lparr>directory := [('''', Some 3)]\<rparr>) =
     Returns (Some '''', demo_boot\<lparr>directory := [('''', Some 3)], utf_buffers := ['''']\<rparr>) \<and>
   (\<exists>cs. fst (nativeWaitForService demo_platform None (Some '''')
                 (demo_boot\<lparr>directory := [('''', Some 3)]\<rparr>)) =
          Call_GetStringUTFChars (Some '''') # Call_waitForService (Some '''') # cs) \<and>
   snd (nativeWaitForService demo_platform None (Some '''')
          (demo_boot\<lparr>directory := [('''', Some 3)]\<rparr>)) =
     Returns (Some (BinderProxy 3), demo_boot\<lparr>directory := [('''', Some 3)], utf_buffers := ['''']\<rparr>)"
proof -
  let ?w = "demo_boot\<lparr>directory := [('''', Some 3)]\<rparr>"
  let ?w1 = "demo_boot\<lparr>directory := [('''', Some 3)], utf_buffers := ['''']\<rparr>"
  have decode: "GetStringUTFChars demo_platform (Some '''') ?w = Returns (Some '''', ?w1)"
    by (simp add: demo_defs)
  from decoded_name_forwarded_unvalidated [OF decode, of None] decode show ?thesis
    by (simp add: demo_defs)
qed

text \<open>
  \<^bold>\<open>C9.\<close> A null string reference is passed to the decoding unchecked. When the
  decoding returns a null buffer, the lookup is still called, with the null pointer,
  and the entry point ends as that lookup followed by the conversion ends. When the
  decoding returns a buffer, no lookup with a null pointer is made.
\<close>

theorem no_null_guards:
  "(\<exists>cs. fst (nativeWaitForService env clazz None w) = Call_GetStringUTFChars None # cs) \<and>
   (GetStringUTFChars env serviceNameJni w = Returns (None, w1) \<longrightarrow>
      (\<exists>cs. fst (nativeWaitForService env clazz serviceNameJni w) =
             Call_GetStringUTFChars serviceNameJni # Call_waitForService None # cs) \<and>
      snd (nativeWaitForService env clazz serviceNameJni w) =
        (case AServiceManager_waitForService env None w1 of
           Returns (ibinder, w2) \<Rightarrow> AIBinder_toJavaBinder env ibinder w2
         | Fails e \<Rightarrow> Fails e
         | Blocks \<Rightarrow> Blocks)) \<and>
   (GetStringUTFChars env serviceNameJni w = Returns (Some name, w1) \<longrightarrow>
      Call_waitForService None \<notin> set (fst (nativeWaitForService env clazz serviceNameJni w)))"
proof (intro conjI impI)
  show "\<exists>cs. fst (nativeWaitForService env clazz None w) = Call_GetStringUTFChars None # cs"
    by (simp add: nativeWaitForService_unfold split: outcome.splits prod.splits)
next
  assume null_buffer: "GetStringUTFChars env serviceNameJni w = Returns (None, w1)"
  then show "\<exists>cs. fst (nativeWaitForService env clazz serviceNameJni w) =
      Call_GetStringUTFChars serviceNameJni # Call_waitForService None # cs"
    by (simp add: nativeWaitForService_unfold split: outcome.splits prod.splits)
  from null_buffer show "snd (nativeWaitForService env clazz serviceNameJni w) =
      (case AServiceManager_waitForService env None w1 of
         Returns (ibinder, w2) \<Rightarrow> AIBinder_toJavaBinder env ibinder w2
       | Fails e \<Rightarrow> Fails e
       | Blocks \<Rightarrow> Blocks)"
    by (simp add: nativeWaitForService_unfold split: outcome.splits prod.splits)
next
  assume "GetStringUTFChars env serviceNameJni w = Returns (Some name, w1)"
  then show "Call_waitForService None \<notin>
      set (fst (nativeWaitForService env clazz serviceNameJni w))"
    by (simp add: nativeWaitForService_unfold split: outcome.splits prod.splits)
qed

theorem no_null_guards_witness:
  "GetStringUTFChars demo_platform (Some ''wifi_mainline_supplicant'')
       (demo_boot\<lparr>utf_capacity := 0\<rparr>) =
     Returns (None, demo_boot\<lparr>utf_capacity := 0, pending_exception := Some ''OutOfMemoryError''\<rparr>) \<and>
   (\<exists>cs. fst (nativeWaitForService demo_platform None (Some ''wifi_mainline_supplicant'')
                 (demo_boot\<lparr>utf_capacity := 0\<rparr>)) =
          Call_GetStringUTFChars (Some ''wifi_mainline_supplicant'') #
          Call_waitForService None # cs) \<and>
   snd (nativeWaitForService demo_platform None (Some ''wifi_mainline_supplicant'')
          (demo_boot\<lparr>utf_capacity := 0\<rparr>)) =
     Fails ''SIGSEGV: null instance name'' \<and>
   GetStringUTFChars demo_platform (Some ''wifi_mainline_supplicant'') demo_boot =
     Returns (Some ''wifi_mainline_supplicant'',
              demo_boot\<lparr>utf_buffers := [''wifi_mainline_supplicant'']\<rparr>) \<and>
   Call_waitForService None \<notin>
     set (fst (nativeWaitForService demo_platform None (Some ''wifi_mainline_supplicant'')
                 demo_boot))"
proof -
  let ?n = "''wifi_mainline_supplicant''"
  let ?w0 = "demo_boot\<lparr>utf_capacity := 0\<rparr>"
  let ?w0' = "demo_boot\<lparr>utf_capacity := 0, pending_exception := Some ''OutOfMemoryError''\<rparr>"
  let ?w1 = "demo_boot\<lparr>utf_buffers := [?n]\<rparr>"
  have no_buffer: "GetStringUTFChars demo_platform (Some ?n) ?w0 = Returns (None, ?w0')"
    by (simp add: demo_defs)
  have buffer: "GetStringUTFChars demo_platform (Some ?n) demo_boot = Returns (Some ?n, ?w1)"
    by (simp add: demo_defs)
  have crash: "AServiceManager_waitForService demo_platform None ?w0' =
      Fails ''SIGSEGV: null instance name''"
    by (simp add: demo_defs)
  from no_null_guards [where env = demo_platform and clazz = None and serviceNameJni = "Some ?n"
             and w = ?w0 and ?w1.0 = ?w0'] no_buffer crash
  have unguarded:
    "(\<exists>cs. fst (nativeWaitForService demo_platform None (Some ?n) ?w0) =
           Call_GetStringUTFChars (Some ?n) # Call_waitForService None # cs) \<and>
     snd (nativeWaitForService demo_platform None (Some ?n) ?w0) =
       Fails ''SIGSEGV: null instance name''"
    by simp
  from no_null_guards [where env = demo_platform and clazz = None and serviceNameJni = "Some ?n"
             and w = demo_boot and ?w1.0 = ?w1 and name = ?n] buffer
  have guarded: "Call_waitForService None \<notin>
      set (fst (nativeWaitForService demo_platform None (Some ?n) demo_boot))"
    by blast
  from no_buffer unguarded buffer guarded show ?thesis by blast
qed

text \<open>
  \<^bold>\<open>C10.\<close> Let \<open>R\<close> relate two platform states that the three facilities
  cannot tell apart: on related states each facility ends the same way and leaves
  related states. Then two calls of the entry point with the same string, on related
  states, make the same platform calls and end the same way with equal results,
  whatever the unused \<^verbatim>\<open>clazz\<close> argument is. The result depends on the string and
  on what the platform facilities depend on, and on nothing else.
\<close>

theorem bridge_deterministic_in_platform_view:
  assumes get: "\<forall>s wa wb. R wa wb \<longrightarrow>
                  agree R (GetStringUTFChars env s wa) (GetStringUTFChars env s wb)"
      and wait: "\<forall>n wa wb. R wa wb \<longrightarrow>
                  agree R (AServiceManager_waitForService env n wa)
                          (AServiceManager_waitForService env n wb)"
      and conv: "\<forall>b wa wb. R wa wb \<longrightarrow>
                  agree R (AIBinder_toJavaBinder env b wa) (AIBinder_toJavaBinder env b wb)"
      and same: "R w w'"
  shows "fst (nativeWaitForService env clazz serviceNameJni w) =
           fst (nativeWaitForService env clazz' serviceNameJni w') \<and>
         agree R (snd (nativeWaitForService env clazz serviceNameJni w))
                 (snd (nativeWaitForService env clazz' serviceNameJni w'))"
proof -
  from get same have g: "agree R (GetStringUTFChars env serviceNameJni w)
                                 (GetStringUTFChars env serviceNameJni w')"
    by blast
  show ?thesis
  proof (cases "GetStringUTFChars env serviceNameJni w")
    case (Returns r)
    obtain serviceName w1 where r: "r = (serviceName, w1)" by (cases r)
    with Returns g obtain w1' where
      d': "GetStringUTFChars env serviceNameJni w' = Returns (serviceName, w1')" and R1: "R w1 w1'"
      by (cases "GetStringUTFChars env serviceNameJni w'") auto
    from wait R1 have l: "agree R (AServiceManager_waitForService env serviceName w1)
                                  (AServiceManager_waitForService env serviceName w1')"
      by blast
    show ?thesis
    proof (cases "AServiceManager_waitForService env serviceName w1")
      case lr: (Returns q)
      obtain ibinder w2 where q: "q = (ibinder, w2)" by (cases q)
      with lr l obtain w2' where
        l': "AServiceManager_waitForService env serviceName w1' = Returns (ibinder, w2')" and
        R2: "R w2 w2'"
        by (cases "AServiceManager_waitForService env serviceName w1'") auto
      from conv R2 have "agree R (AIBinder_toJavaBinder env ibinder w2)
                                 (AIBinder_toJavaBinder env ibinder w2')"
        by blast
      with Returns r d' lr q l' show ?thesis
        by (simp add: nativeWaitForService_unfold)
    next
      case (Fails e)
      with l have "AServiceManager_waitForService env serviceName w1' = Fails e"
        by (cases "AServiceManager_waitForService env serviceName w1'") auto
      with Returns r d' Fails show ?thesis
        by (simp add: nativeWaitForService_unfold)
    next
      case Blocks
      with l have "AServiceManager_waitForService env serviceName w1' = Blocks"
        by (cases "AServiceManager_waitForService env serviceName w1'") auto
      with Returns r d' Blocks show ?thesis
        by (simp add: nativeWaitForService_unfold)
    qed
  next
    case (Fails e)
    with g have "GetStringUTFChars env serviceNameJni w' = Fails e"
      by (cases "GetStringUTFChars env serviceNameJni w'") auto
    with Fails show ?thesis by (simp add: nativeWaitForService_unfold)
  next
    case Blocks
    with g have "GetStringUTFChars env serviceNameJni w' = Blocks"
      by (cases "GetStringUTFChars env serviceNameJni w'") auto
    with Blocks show ?thesis by (simp add: nativeWaitForService_unfold)
  qed
qed

theorem bridge_deterministic_in_platform_view_witness:
  "demo_same_view demo_boot
     (demo_boot\<lparr>utf_buffers := [''nfc''], utf_capacity := 2,
                 pending_exception := Some ''stale''\<rparr>) \<and>
   fst (nativeWaitForService demo_platform None (Some ''wifi_mainline_supplicant'') demo_boot) =
   fst (nativeWaitForService demo_platform (Some (BinderProxy 1))
          (Some ''wifi_mainline_supplicant'')
          (demo_boot\<lparr>utf_buffers := [''nfc''], utf_capacity := 2,
                      pending_exception := Some ''stale''\<rparr>)) \<and>
   agree demo_same_view
     (snd (nativeWaitForService demo_platform None (Some ''wifi_mainline_supplicant'') demo_boot))
     (snd (nativeWaitForService demo_platform (Some (BinderProxy 1))
             (Some ''wifi_mainline_supplicant'')
             (demo_boot\<lparr>utf_buffers := [''nfc''], utf_capacity := 2,
                         pending_exception := Some ''stale''\<rparr>)))"
proof -
  let ?w' = "demo_boot\<lparr>utf_buffers := [''nfc''], utf_capacity := 2,
                       pending_exception := Some ''stale''\<rparr>"
  have get: "\<forall>s wa wb. demo_same_view wa wb \<longrightarrow>
      agree demo_same_view (GetStringUTFChars demo_platform s wa)
                           (GetStringUTFChars demo_platform s wb)"
    by (simp add: demo_platform_def demo_get_agree)
  have wait: "\<forall>n wa wb. demo_same_view wa wb \<longrightarrow>
      agree demo_same_view (AServiceManager_waitForService demo_platform n wa)
                           (AServiceManager_waitForService demo_platform n wb)"
    by (simp add: demo_platform_def demo_wait_agree)
  have conv: "\<forall>b wa wb. demo_same_view wa wb \<longrightarrow>
      agree demo_same_view (AIBinder_toJavaBinder demo_platform b wa)
                           (AIBinder_toJavaBinder demo_platform b wb)"
    by (simp add: demo_platform_def demo_conv_agree)
  have same: "demo_same_view demo_boot ?w'"
    by (simp add: demo_same_view_def demo_boot_def)
  from bridge_deterministic_in_platform_view [where R = demo_same_view and env = demo_platform and w = demo_boot and w' = ?w'
              and clazz = None and clazz' = "Some (BinderProxy 1)"
              and serviceNameJni = "Some ''wifi_mainline_supplicant''",
            OF get wait conv same]
    same
  show ?thesis by (rule conjI [rotated])
qed

end
